theory Spec2Isabelle
  imports Complex_Main
begin

section \<open>The contact intake server (server.js) and its SQLite store\<close>

text \<open>
  The development embeds the Express server of the repository: the top-level start-up
  code (opening \<^verbatim>\<open>contactData.db\<close>, \<^verbatim>\<open>CREATE TABLE IF NOT EXISTS contact_data\<close>,
  \<^verbatim>\<open>app.listen(5000)\<close>) and the three route handlers \<^verbatim>\<open>POST /submit-contact\<close>,
  \<^verbatim>\<open>POST /api/submit-loan\<close> and \<^verbatim>\<open>GET /\<close>.

  What the program leaves to its environment appears as explicit arguments:
  \<^item> the contents of the database file, a value of type \<open>store\<close>, which outlives the
    process;
  \<^item> the error, if any, that the SQLite driver reports for opening the file and for each
    statement (\<open>None\<close>: no input/output error);
  \<^item> the parsed request body \<^verbatim>\<open>req.body\<close>, the object that \<^verbatim>\<open>express.json()\<close> leaves
    there (the empty object for a request without a JSON body), as a map from keys to
    JSON values.

  Requests are handled one at a time: the statement a request issues completes before the
  next request is looked at. Port 5000 is taken to be free. Requests that match none of
  the three routes go on to \<^verbatim>\<open>express.static\<close>, which is registered after the routes and
  uses neither the store nor the console; they are not part of the model.
\<close>

subsection \<open>JavaScript values\<close>

text \<open>
  A JavaScript number is a double: a finite one is given by the rational it denotes
  (\<open>-0\<close> and \<open>0\<close> are both \<open>Double 0\<close>); \<^verbatim>\<open>JSON.parse\<close> yields an infinity for a literal
  beyond the range and never yields NaN.
\<close>

datatype number = Double rat | Infinity | NegInfinity

datatype json =
    JNull
  | JBool bool
  | JNum number
  | JString string
  | JArray "json list"
  | JObject "(string \<times> json) list"

text \<open>The falsy values of JavaScript among those \<^verbatim>\<open>JSON.parse\<close> produces.\<close>

fun falsy :: "json \<Rightarrow> bool" where
  "falsy JNull = True"
| "falsy (JBool b) = (\<not> b)"
| "falsy (JNum n) = (n = Double 0)"
| "falsy (JString s) = (s = [])"
| "falsy (JArray xs) = False"
| "falsy (JObject kvs) = False"

text \<open>
  A destructured property is \<open>None\<close> when the key is absent (\<^verbatim>\<open>undefined\<close>);
  \<open>js_not\<close> is the operator \<^verbatim>\<open>!\<close> on it.
\<close>

fun js_not :: "json option \<Rightarrow> bool" where
  "js_not None = True"
| "js_not (Some v) = falsy v"

type_synonym body = "string \<rightharpoonup> json"

text \<open>
  The driver hands \<^verbatim>\<open>this.lastID\<close>, a 64-bit integer, to JavaScript as a number: the
  double nearest to it, the one with the even significand when two are equally near.
  \<open>double_unit n\<close> is the distance between the doubles around \<open>n\<close>: 1 below \<open>2\<^sup>5\<^sup>3\<close>
  and doubled with every further binary digit.
\<close>

function double_unit :: "nat \<Rightarrow> nat" where
  "double_unit n = (if n < 9007199254740992 then 1 else 2 * double_unit (n div 2))"
  by pat_completeness auto
termination
  by (relation "measure (\<lambda>n. n)") auto

declare double_unit.simps [simp del]

definition to_double :: "int \<Rightarrow> rat" where
  "to_double i =
     (let n = nat \<bar>i\<bar>; u = double_unit n; q = n div u; r = n mod u;
          m = (if 2 * r < u then q else if u < 2 * r then q + 1
               else if even q then q else q + 1)
      in of_int (sgn i * int (m * u)))"

subsection \<open>The store: table \<^verbatim>\<open>contact_data\<close>\<close>

text \<open>
  \<^verbatim>\<open>
  CREATE TABLE IF NOT EXISTS contact_data (
    id INTEGER PRIMARY KEY AUTOINCREMENT,
    name TEXT NOT NULL,
    email TEXT NOT NULL,
    contact TEXT,
    message TEXT NOT NULL
  )
  \<close>
  A cell is \<open>None\<close> for SQL NULL and otherwise holds the JavaScript value that was bound
  to the parameter. What the driver and SQLite make of a bound value that is not a string
  (a number or a boolean is stored as a number, an array or an object as a fixed text) is
  not modelled: a string is stored as it is, and no other value is stored as the empty
  text. The store is the table, \<open>None\<close> while it does not exist, and the
  \<^verbatim>\<open>sqlite_sequence\<close> entry of the table: the largest id it has ever held, 0 while
  there is no entry.
\<close>

type_synonym cell = "json option"

record row =
  id_col :: int
  name_col :: cell
  email_col :: cell
  contact_col :: cell
  message_col :: cell

record store =
  table :: "row list option"
  seq :: int

definition empty_store :: store where
  "empty_store = \<lparr>table = None, seq = 0\<rparr>"

text \<open>The largest rowid of SQLite, \<open>2\<^sup>6\<^sup>3 - 1\<close>.\<close>

definition max_rowid :: int where
  "max_rowid = 9223372036854775807"

text \<open>
  The driver binds \<^verbatim>\<open>undefined\<close> and \<^verbatim>\<open>null\<close> as NULL and every other value as
  itself.
\<close>

fun bind_param :: "json option \<Rightarrow> cell" where
  "bind_param None = None"
| "bind_param (Some JNull) = None"
| "bind_param (Some v) = Some v"

text \<open>
  \<open>ensureSchema\<close> is the statement \<^verbatim>\<open>CREATE TABLE IF NOT EXISTS contact_data (...)\<close>:
  it returns the error reported, if any, and the store afterwards.
\<close>

definition ensureSchema :: "string option \<Rightarrow> store \<Rightarrow> string option \<times> store" where
  "ensureSchema fault st =
     (case fault of
        Some m \<Rightarrow> (Some m, st)
      | None \<Rightarrow>
          (case table st of
             None \<Rightarrow> (None, st\<lparr>table := Some []\<rparr>)
           | Some rows \<Rightarrow> (None, st)))"

text \<open>
  The id an AUTOINCREMENT column gives to a new row. SQLite takes 1 for an empty table
  and otherwise one more than the largest id in the table, then raises it to one more
  than the \<^verbatim>\<open>sqlite_sequence\<close> entry if that is larger. When the largest id in the table
  or the entry is the largest rowid there is no id left (\<open>None\<close>) and the statement fails
  with SQLITE_FULL.
\<close>

fun last_rowid :: "row list \<Rightarrow> int option" where
  "last_rowid [] = None"
| "last_rowid (r # rows) = Some (fold max (map id_col rows) (id_col r))"

definition new_rowid :: "store \<Rightarrow> row list \<Rightarrow> int option" where
  "new_rowid st rows =
     (case (case last_rowid rows of
              None \<Rightarrow> Some 1
            | Some k \<Rightarrow> if max_rowid \<le> k then None else Some (k + 1)) of
        None \<Rightarrow> None
      | Some v \<Rightarrow> if max_rowid \<le> seq st then None else Some (max v (seq st + 1)))"

text \<open>
  \<open>insert_row\<close> is the statement
  \<^verbatim>\<open>INSERT INTO contact_data (name, email, contact, message) VALUES (?, ?, ?, ?)\<close>
  with the four parameters bound: \<open>Inl\<close> the error message, \<open>Inr\<close> the id of the new row
  (\<^verbatim>\<open>this.lastID\<close>). SQLite picks the id before it tests the NOT NULL constraints. A
  failed statement leaves the store as it was.
\<close>

definition insert_row :: "string option \<Rightarrow> json option \<times> json option \<times> json option \<times> json option
    \<Rightarrow> store \<Rightarrow> (string + int) \<times> store" where
  "insert_row fault params st =
     (case params of (name, email, contact, message) \<Rightarrow>
        (case fault of
           Some m \<Rightarrow> (Inl m, st)
         | None \<Rightarrow>
             (case table st of
                None \<Rightarrow> (Inl ''SQLITE_ERROR: no such table: contact_data'', st)
              | Some rows \<Rightarrow>
                  (case new_rowid st rows of
                     None \<Rightarrow> (Inl ''SQLITE_FULL: database or disk is full'', st)
                   | Some i \<Rightarrow>
                       if bind_param name = None then
                         (Inl ''SQLITE_CONSTRAINT: NOT NULL constraint failed: contact_data.name'', st)
                       else if bind_param email = None then
                         (Inl ''SQLITE_CONSTRAINT: NOT NULL constraint failed: contact_data.email'', st)
                       else if bind_param message = None then
                         (Inl ''SQLITE_CONSTRAINT: NOT NULL constraint failed: contact_data.message'', st)
                       else
                         (let r = \<lparr>id_col = i, name_col = bind_param name,
                                   email_col = bind_param email,
                                   contact_col = bind_param contact,
                                   message_col = bind_param message\<rparr>
                          in (Inr i, st\<lparr>table := Some (rows @ [r]), seq := i\<rparr>))))))"

subsection \<open>The process\<close>

datatype log_arg = Str string | Obj body

datatype log_entry = ConsoleLog "log_arg list" | ConsoleError "log_arg list"

datatype payload = Json "(string \<times> json) list" | Text string

datatype response = Response (status: nat) (payload: payload)

datatype proc = Running | Exited nat

text \<open>
  The state of the server: whether the process runs, whether it listens on port 5000,
  whether the database handle \<^verbatim>\<open>db\<close> is open, the database file, and what was written
  to the console.
\<close>

record server =
  proc :: proc
  listening :: bool
  db_open :: bool
  db :: store
  console :: "log_entry list"

text \<open>
  \<^verbatim>\<open>
  const db = new sqlite3.Database(dbPath, (err) => {
    if (err) {
      console.error('Error opening database:', err.message);
    } else {
      console.log('Connected to the SQLite database at', dbPath);
    }
  });
  db.run(`CREATE TABLE IF NOT EXISTS contact_data (...)`);
  ...
  app.listen(5000, () => {
    console.log('Server is running on http://localhost:5000');
  });
  \<close>
  Start-up, from the path and the contents of the database file and the errors the driver
  reports for opening it and for the CREATE TABLE statement. The result is the server
  once the callbacks of start-up have run; requests are looked at from then on.

  \<^item> \<^verbatim>\<open>app.listen(5000, ...)\<close> is called whatever happens to the database; its callback
    writes the first console line.
  \<^item> The callback given to \<^verbatim>\<open>new sqlite3.Database\<close> writes the error to the console when
    opening fails and does nothing else. The driver runs the statements issued on a
    handle once the handle is open, so after a failed opening the CREATE TABLE statement
    is not run.
  \<^item> \<^verbatim>\<open>db.run(CREATE TABLE ...)\<close> is given no callback. The driver then emits the
    statement's error as an \<^verbatim>\<open>error\<close> event, which has no listener: Node throws it and
    the uncaught exception ends the process with exit code 1.
\<close>

definition boot :: "string \<Rightarrow> string option \<Rightarrow> string option \<Rightarrow> store \<Rightarrow> server" where
  "boot dbPath open_err schema_err st =
     (let s = \<lparr>proc = Running, listening = True, db_open = False, db = st,
               console = [ConsoleLog [Str ''Server is running on http://localhost:5000'']]\<rparr>
      in case open_err of
           Some m \<Rightarrow> s\<lparr>console := console s @ [ConsoleError [Str ''Error opening database:'', Str m]]\<rparr>
         | None \<Rightarrow>
             (let s' = s\<lparr>db_open := True,
                         console := console s @
                           [ConsoleLog [Str ''Connected to the SQLite database at'', Str dbPath]]\<rparr>
              in case ensureSchema schema_err st of
                   (Some m, st') \<Rightarrow> s'\<lparr>proc := Exited 1, listening := False, db_open := False, db := st'\<rparr>
                 | (None, st') \<Rightarrow> s'\<lparr>db := st'\<rparr>))"

text \<open>
  \<^verbatim>\<open>db.run(sql, params, callback)\<close> as the handler of \<^verbatim>\<open>/submit-contact\<close> calls it. The
  first component is what the callback receives, \<open>None\<close> when it is never called: a
  statement issued on a handle that did not open is not run, and the callback is called
  only if the driver reports an error for it.
\<close>

definition db_run :: "string option \<Rightarrow> json option \<times> json option \<times> json option \<times> json option
    \<Rightarrow> server \<Rightarrow> (string + int) option \<times> server" where
  "db_run fault params s =
     (if db_open s then
        (case insert_row fault params (db s) of (r, st') \<Rightarrow> (Some r, s\<lparr>db := st'\<rparr>))
      else
        (case fault of Some m \<Rightarrow> (Some (Inl m), s) | None \<Rightarrow> (None, s)))"

text \<open>
  \<^verbatim>\<open>
  app.post('/submit-contact', (req, res) => {
    const { name, email, contact, message } = req.body;
    if (!name || !email || !message) {
      return res.status(400).json({ error: 'Name, email, and message are required.' });
    }
    db.run('INSERT ...', [name, email, contact, message], function (err) {
      if (err) {
        console.error('Error inserting data into database:', err.message);
        return res.status(500).json({ error: 'Failed to save contact data.' });
      }
      res.status(200).json({ message: 'Contact data saved successfully!', id: this.lastID });
    });
  });
  \<close>
  The result is the response sent, \<open>None\<close> when none is, and the server afterwards.
  \<^verbatim>\<open>this.lastID\<close> is a JavaScript number, \<open>to_double\<close> of the id of the new row; the
  JSON text of the response shows it with the fewest digits that read back as the same
  double.
\<close>

definition submit_contact :: "string option \<Rightarrow> body \<Rightarrow> server \<Rightarrow> response option \<times> server" where
  "submit_contact fault req_body s =
     (let name = req_body ''name''; email = req_body ''email'';
          contact = req_body ''contact''; message = req_body ''message''
      in if js_not name \<or> js_not email \<or> js_not message then
           (Some (Response 400 (Json [(''error'', JString ''Name, email, and message are required.'')])), s)
         else
           (case db_run fault (name, email, contact, message) s of
              (None, s') \<Rightarrow> (None, s')
            | (Some (Inl m), s') \<Rightarrow>
                (Some (Response 500 (Json [(''error'', JString ''Failed to save contact data.'')])),
                 s'\<lparr>console := console s' @
                      [ConsoleError [Str ''Error inserting data into database:'', Str m]]\<rparr>)
            | (Some (Inr lastID), s') \<Rightarrow>
                (Some (Response 200 (Json [(''message'', JString ''Contact data saved successfully!''),
                                           (''id'', JNum (Double (to_double lastID)))])),
                 s')))"

text \<open>
  \<^verbatim>\<open>
  app.post("/api/submit-loan", (req, res) => {
    console.log("Loan application received:", req.body);
    res.status(200).json({ message: "Loan application submitted successfully." });
  });
  \<close>
\<close>

definition submit_loan :: "body \<Rightarrow> server \<Rightarrow> response option \<times> server" where
  "submit_loan req_body s =
     (Some (Response 200 (Json [(''message'', JString ''Loan application submitted successfully.'')])),
      s\<lparr>console := console s @ [ConsoleLog [Str ''Loan application received:'', Obj req_body]]\<rparr>)"

text \<open>\<^verbatim>\<open>app.get('/', (req, res) => { res.send('Server is running'); });\<close>\<close>

definition get_root :: "server \<Rightarrow> response option \<times> server" where
  "get_root s = (Some (Response 200 (Text ''Server is running'')), s)"

datatype request = PostSubmitContact body | PostSubmitLoan body | GetRoot

text \<open>
  A request reaches its handler only while the process runs and listens. The first
  argument is the error the driver reports for the statement the request issues, if it
  issues one.
\<close>

definition handle :: "string option \<Rightarrow> request \<Rightarrow> server \<Rightarrow> response option \<times> server" where
  "handle fault rq s =
     (if proc s = Running \<and> listening s then
        (case rq of
           PostSubmitContact b \<Rightarrow> submit_contact fault b s
         | PostSubmitLoan b \<Rightarrow> submit_loan b s
         | GetRoot \<Rightarrow> get_root s)
      else (None, s))"

text \<open>
  One process lifetime after start-up: the requests in the order they arrive, each with
  the driver's error for it; the result lists every request with its response.
\<close>

fun serve :: "(string option \<times> request) list \<Rightarrow> server \<Rightarrow> (request \<times> response option) list \<times> server" where
  "serve [] s = ([], s)"
| "serve ((fault, rq) # rest) s =
     (case handle fault rq s of
        (resp, s') \<Rightarrow> (case serve rest s' of (out, s'') \<Rightarrow> ((rq, resp) # out, s'')))"

subsection \<open>Properties\<close>



text \<open>A cell is filled when it is not NULL and its value is not falsy; the empty string is falsy.\<close>

fun filled :: "cell \<Rightarrow> bool" where
  "filled None = False"
| "filled (Some v) = (\<not> falsy v)"

definition row_ok :: "row \<Rightarrow> bool" where
  "row_ok r = (filled (name_col r) \<and> filled (email_col r) \<and> filled (message_col r))"

definition store_ok :: "store \<Rightarrow> bool" where
  "store_ok st = (case table st of None \<Rightarrow> True | Some rows \<Rightarrow> list_all row_ok rows)"

text \<open>
  The server states that can arise: a first start on a database file that does not hold
  the table yet, a restart on the file an earlier process left, and the handling of a
  request.
\<close>

inductive reachable :: "server \<Rightarrow> bool" where
  start: "reachable (boot dbPath open_err schema_err empty_store)"
| restart: "reachable s \<Longrightarrow> reachable (boot dbPath open_err schema_err (db s))"
| request: "reachable s \<Longrightarrow> reachable (snd (handle fault rq s))"

subsection \<open>Example inputs\<close>

text \<open>
  The two request bodies the specification gives as examples; a server started on a
  database file that does not hold the table yet; the store after the first body was
  submitted, and a server restarted on it; a server whose database file could not be
  opened; a sequence of requests, one of them with a driver error; a store whose
  sequence entry is one below the largest rowid, and a store that holds the id \<open>2\<^sup>5\<^sup>3\<close>,
  each with a server started on it; four submissions of the first body.
\<close>

definition asha :: body where
  "asha = [''name'' \<mapsto> JString ''Asha'', ''email'' \<mapsto> JString ''asha@example.com'',
           ''message'' \<mapsto> JString ''Interested in a loan'']"

definition no_name :: body where
  "no_name = [''name'' \<mapsto> JString [], ''email'' \<mapsto> JString ''a@b.com'', ''message'' \<mapsto> JString ''hi'']"

definition example_server :: server where
  "example_server = boot ''/srv/contactData.db'' None None empty_store"



definition unopened_server :: server where
  "unopened_server =
     boot ''/srv/contactData.db'' (Some ''SQLITE_CANTOPEN: unable to open database file'') None empty_store"

definition example_requests :: "(string option \<times> request) list" where
  "example_requests =
     [(None, PostSubmitContact asha), (None, GetRoot),
      (Some ''SQLITE_BUSY: database is locked'', PostSubmitContact asha),
      (None, PostSubmitContact no_name), (None, PostSubmitLoan Map.empty),
      (None, PostSubmitContact asha)]"






section \<open>Lemmas about the store and the handlers\<close>

subsection \<open>The store\<close>






lemma double_unit_small: "n < 9007199254740992 \<Longrightarrow> double_unit n = 1"
  by (subst double_unit.simps) simp

lemma double_unit_limit: "double_unit 9007199254740992 = 2"
  by (subst double_unit.simps) (simp add: double_unit_small)

lemma sgn_times_abs: "sgn i * int (nat \<bar>i\<bar>) = (i::int)"
  by (cases "0 \<le> i") (simp_all add: sgn_if)

lemma to_double_exact:
  assumes "\<bar>i\<bar> \<le> 9007199254740992"
  shows "to_double i = of_int i"
proof -
  have "to_double i = of_int (sgn i * int (nat \<bar>i\<bar>))"
  proof (cases "\<bar>i\<bar> = 9007199254740992")
    case True
    then have n: "nat \<bar>i\<bar> = 9007199254740992" by simp
    show ?thesis
      unfolding to_double_def n Let_def double_unit_limit by simp
  next
    case False
    with assms have "nat \<bar>i\<bar> < 9007199254740992" by simp
    then have u: "double_unit (nat \<bar>i\<bar>) = 1" by (rule double_unit_small)
    show ?thesis
      unfolding to_double_def Let_def u by simp
  qed
  also have "\<dots> = of_int i" by (simp only: sgn_times_abs)
  finally show ?thesis .
qed





lemma bind_param_filled: "\<not> js_not v \<Longrightarrow> bind_param v = v \<and> filled v"
  by (cases v rule: bind_param.cases) simp_all

lemma filled_nonempty: "filled c \<Longrightarrow> c \<noteq> None \<and> c \<noteq> Some (JString [])"
  by (cases c) auto

lemma insert_row_Inl: "insert_row fault params st = (Inl m, st') \<Longrightarrow> st' = st"
  by (auto simp: insert_row_def Let_def split: prod.splits option.splits if_splits)

lemma insert_row_Inr:
  assumes "insert_row fault (name, email, contact, message) st = (Inr i, st')"
  shows "fault = None \<and> (\<exists>rows. table st = Some rows \<and> new_rowid st rows = Some i \<and>
           bind_param name \<noteq> None \<and> bind_param email \<noteq> None \<and> bind_param message \<noteq> None \<and>
           st' = st\<lparr>table := Some (rows @ [\<lparr>id_col = i, name_col = bind_param name,
                     email_col = bind_param email, contact_col = bind_param contact,
                     message_col = bind_param message\<rparr>]), seq := i\<rparr>)"
  using assms
  by (auto simp: insert_row_def Let_def split: option.splits if_splits)

lemma db_run_Inl: "db_run fault params s = (Some (Inl m), s') \<Longrightarrow> s' = s"
  by (auto simp: db_run_def split: if_splits prod.splits option.splits dest: insert_row_Inl)

lemma db_run_Inr:
  "db_run fault params s = (Some (Inr i), s') \<Longrightarrow>
     db_open s \<and> (\<exists>st'. insert_row fault params (db s) = (Inr i, st') \<and> s' = s\<lparr>db := st'\<rparr>)"
  by (auto simp: db_run_def split: if_splits prod.splits option.splits)

lemma db_run_None: "db_run fault params s = (None, s') \<Longrightarrow> s' = s \<and> \<not> db_open s"
  by (auto simp: db_run_def split: if_splits prod.splits option.splits)

subsection \<open>Start-up\<close>

lemma example_server_eq:
  "example_server = \<lparr>proc = Running, listening = True, db_open = True,
      db = \<lparr>table = Some [], seq = 0\<rparr>,
      console = [ConsoleLog [Str ''Server is running on http://localhost:5000''],
                 ConsoleLog [Str ''Connected to the SQLite database at'', Str ''/srv/contactData.db'']]\<rparr>"
  by (simp add: example_server_def boot_def ensureSchema_def empty_store_def)




lemma boot_open_failed:
  "boot dbPath (Some m) schema_err st =
     \<lparr>proc = Running, listening = True, db_open = False, db = st,
      console = [ConsoleLog [Str ''Server is running on http://localhost:5000''],
                 ConsoleError [Str ''Error opening database:'', Str m]]\<rparr>"
  by (simp add: boot_def)

lemma boot_schema_failed:
  "boot dbPath None (Some m) st =
     \<lparr>proc = Exited 1, listening = False, db_open = False, db = st,
      console = [ConsoleLog [Str ''Server is running on http://localhost:5000''],
                 ConsoleLog [Str ''Connected to the SQLite database at'', Str dbPath]]\<rparr>"
  by (simp add: boot_def ensureSchema_def)

subsection \<open>The handlers\<close>

lemma handle_running:
  "proc s = Running \<Longrightarrow> listening s \<Longrightarrow>
   handle fault rq s =
     (case rq of PostSubmitContact b \<Rightarrow> submit_contact fault b s
      | PostSubmitLoan b \<Rightarrow> submit_loan b s
      | GetRoot \<Rightarrow> get_root s)"
  by (simp add: handle_def)

lemma submit_contact_invalid:
  "js_not (b ''name'') \<or> js_not (b ''email'') \<or> js_not (b ''message'') \<Longrightarrow>
   submit_contact fault b s =
     (Some (Response 400 (Json [(''error'', JString ''Name, email, and message are required.'')])), s)"
  by (simp add: submit_contact_def Let_def)

lemma submit_contact_valid:
  "\<not> js_not (b ''name'') \<Longrightarrow> \<not> js_not (b ''email'') \<Longrightarrow> \<not> js_not (b ''message'') \<Longrightarrow>
   submit_contact fault b s =
     (case db_run fault (b ''name'', b ''email'', b ''contact'', b ''message'') s of
        (None, s') \<Rightarrow> (None, s')
      | (Some (Inl m), s') \<Rightarrow>
          (Some (Response 500 (Json [(''error'', JString ''Failed to save contact data.'')])),
           s'\<lparr>console := console s' @
                [ConsoleError [Str ''Error inserting data into database:'', Str m]]\<rparr>)
      | (Some (Inr lastID), s') \<Rightarrow>
          (Some (Response 200 (Json [(''message'', JString ''Contact data saved successfully!''),
                                     (''id'', JNum (Double (to_double lastID)))])),
           s'))"
  by (simp add: submit_contact_def Let_def)

lemma submit_contact_status:
  assumes "submit_contact fault b s = (Some r, s')"
  shows "status r = 400 \<longleftrightarrow> js_not (b ''name'') \<or> js_not (b ''email'') \<or> js_not (b ''message'')"
proof (cases "js_not (b ''name'') \<or> js_not (b ''email'') \<or> js_not (b ''message'')")
  case True
  with assms show ?thesis by (auto simp: submit_contact_invalid)
next
  case False
  with assms show ?thesis
    by (auto simp: submit_contact_valid split: prod.splits option.splits sum.splits)
qed



subsection \<open>A process lifetime\<close>






subsection \<open>The invariant of the store\<close>

lemma store_ok_empty: "store_ok empty_store"
  by (simp add: store_ok_def empty_store_def)

lemma store_ok_boot: "store_ok st \<Longrightarrow> store_ok (db (boot dbPath open_err schema_err st))"
  by (auto simp: boot_def ensureSchema_def store_ok_def Let_def split: option.splits)

lemma store_ok_submit_contact:
  assumes ok: "store_ok (db s)" and h: "submit_contact fault b s = (resp, s')"
  shows "store_ok (db s')"
proof (cases "js_not (b ''name'') \<or> js_not (b ''email'') \<or> js_not (b ''message'')")
  case True
  with h ok show ?thesis by (auto simp: submit_contact_invalid)
next
  case False
  then have valid: "\<not> js_not (b ''name'')" "\<not> js_not (b ''email'')" "\<not> js_not (b ''message'')"
    by simp_all
  obtain cb s1 where run: "db_run fault (b ''name'', b ''email'', b ''contact'', b ''message'') s = (cb, s1)"
    by (cases "db_run fault (b ''name'', b ''email'', b ''contact'', b ''message'') s")
  show ?thesis
  proof (cases cb)
    case None
    with run db_run_None [of fault _ s s1] have "s1 = s" by simp
    with h valid run None ok show ?thesis by (auto simp: submit_contact_valid)
  next
    case (Some res)
    show ?thesis
    proof (cases res)
      case (Inl m)
      with run Some db_run_Inl [of fault _ s m s1] have "s1 = s" by simp
      with h valid run Some Inl ok show ?thesis by (auto simp: submit_contact_valid)
    next
      case (Inr i)
      with run Some have ins: "db_run fault (b ''name'', b ''email'', b ''contact'', b ''message'') s = (Some (Inr i), s1)"
        by simp
      from db_run_Inr [OF ins] obtain st' where
        st': "insert_row fault (b ''name'', b ''email'', b ''contact'', b ''message'') (db s) = (Inr i, st')"
        and s1: "s1 = s\<lparr>db := st'\<rparr>" by blast
      from insert_row_Inr [OF st'] obtain rows where
        rows: "table (db s) = Some rows"
        and eq: "st' = (db s)\<lparr>table := Some (rows @ [\<lparr>id_col = i, name_col = bind_param (b ''name''),
                     email_col = bind_param (b ''email''), contact_col = bind_param (b ''contact''),
                     message_col = bind_param (b ''message'')\<rparr>]), seq := i\<rparr>"
        by blast
      from h valid ins have s': "s' = s1" by (auto simp: submit_contact_valid)
      have new: "row_ok \<lparr>id_col = i, name_col = bind_param (b ''name''),
                     email_col = bind_param (b ''email''), contact_col = bind_param (b ''contact''),
                     message_col = bind_param (b ''message'')\<rparr>"
        using valid by (simp add: row_ok_def bind_param_filled)
      from ok rows have "list_all row_ok rows" by (simp add: store_ok_def)
      with new show ?thesis by (simp add: s' s1 eq store_ok_def)
    qed
  qed
qed

lemma store_ok_handle:
  assumes "store_ok (db s)"
  shows "store_ok (db (snd (handle fault rq s)))"
proof (cases "proc s = Running \<and> listening s")
  case False
  with assms show ?thesis by (auto simp: handle_def)
next
  case True
  show ?thesis
  proof (cases rq)
    case (PostSubmitContact b)
    obtain resp s' where h: "submit_contact fault b s = (resp, s')"
      by (cases "submit_contact fault b s")
    from store_ok_submit_contact [OF assms h] True PostSubmitContact h show ?thesis
      by (simp add: handle_def)
  next
    case (PostSubmitLoan b)
    with assms True show ?thesis by (simp add: handle_def submit_loan_def)
  next
    case GetRoot
    with assms True show ?thesis by (simp add: handle_def get_root_def)
  qed
qed

lemma reachable_store_ok: "reachable s \<Longrightarrow> store_ok (db s)"
proof (induction rule: reachable.induct)
  case (start dbPath open_err schema_err)
  show ?case by (rule store_ok_boot [OF store_ok_empty])
next
  case (restart s dbPath open_err schema_err)
  from restart.IH show ?case by (rule store_ok_boot)
next
  case (request s fault rq)
  from request.IH show ?case by (rule store_ok_handle)
qed

subsection \<open>A database handle that did not open\<close>

lemma submit_contact_closed:
  assumes "\<not> db_open s" and "submit_contact fault b s = (resp, s')"
  shows "db s' = db s \<and> \<not> db_open s' \<and> proc s' = proc s \<and> listening s' = listening s
       \<and> (\<forall>r. resp = Some r \<longrightarrow> status r \<noteq> 200)"
proof (cases "js_not (b ''name'') \<or> js_not (b ''email'') \<or> js_not (b ''message'')")
  case True
  with assms show ?thesis by (auto simp: submit_contact_invalid)
next
  case False
  with assms show ?thesis
    by (auto simp: submit_contact_valid db_run_def split: option.splits)
qed

lemma handle_closed:
  assumes "\<not> db_open s" and "handle fault rq s = (resp, s')"
  shows "db s' = db s \<and> \<not> db_open s' \<and> proc s' = proc s \<and> listening s' = listening s"
proof (cases "proc s = Running \<and> listening s")
  case False
  with assms show ?thesis by (auto simp: handle_def)
next
  case True
  show ?thesis
  proof (cases rq)
    case (PostSubmitContact b)
    with assms True have "submit_contact fault b s = (resp, s')" by (simp add: handle_def)
    from submit_contact_closed [OF assms(1) this] show ?thesis by simp
  next
    case (PostSubmitLoan b)
    with assms True show ?thesis by (auto simp: handle_def submit_loan_def)
  next
    case GetRoot
    with assms True show ?thesis by (auto simp: handle_def get_root_def)
  qed
qed

lemma serve_closed: "\<not> db_open s \<Longrightarrow> db (snd (serve evs s)) = db s"
proof (induction evs arbitrary: s)
  case Nil
  show ?case by simp
next
  case (Cons ev rest)
  obtain fault rq where ev: "ev = (fault, rq)" by (cases ev)
  obtain resp s1 where h: "handle fault rq s = (resp, s1)" by (cases "handle fault rq s")
  from handle_closed [OF Cons.prems h] have c: "\<not> db_open s1" and d: "db s1 = db s" by simp_all
  from Cons.IH [OF c] d ev h show ?case by (auto split: prod.splits)
qed

section \<open>The claims\<close>

text \<open>
  C1. A \<^verbatim>\<open>POST /submit-contact\<close> request whose \<^verbatim>\<open>name\<close>, \<^verbatim>\<open>email\<close> or \<^verbatim>\<open>message\<close> is
  absent or the empty string is answered with status 400 and leaves the server, and with
  it the store, exactly as it was. A request whose three required fields are filled and
  whose \<^verbatim>\<open>contact\<close> is absent is never answered with status 400.
\<close>

theorem submit_contact_rejects_missing_fields:
  assumes "proc s = Running" and "listening s"
  shows "(b ''name'' = None \<or> b ''name'' = Some (JString []) \<or>
          b ''email'' = None \<or> b ''email'' = Some (JString []) \<or>
          b ''message'' = None \<or> b ''message'' = Some (JString []) \<longrightarrow>
            (\<exists>r. handle fault (PostSubmitContact b) s = (Some r, s) \<and> status r = 400))
       \<and> (\<not> js_not (b ''name'') \<and> \<not> js_not (b ''email'') \<and> \<not> js_not (b ''message'') \<longrightarrow>
            (\<forall>r s'. handle fault (PostSubmitContact (b(''contact'' := None))) s = (Some r, s')
               \<longrightarrow> status r \<noteq> 400))"
proof (intro conjI impI allI)
  assume "b ''name'' = None \<or> b ''name'' = Some (JString []) \<or>
          b ''email'' = None \<or> b ''email'' = Some (JString []) \<or>
          b ''message'' = None \<or> b ''message'' = Some (JString [])"
  then have "js_not (b ''name'') \<or> js_not (b ''email'') \<or> js_not (b ''message'')"
    by auto
  then show "\<exists>r. handle fault (PostSubmitContact b) s = (Some r, s) \<and> status r = 400"
    using assms by (simp add: handle_running submit_contact_invalid)
next
  fix r s'
  assume ok: "\<not> js_not (b ''name'') \<and> \<not> js_not (b ''email'') \<and> \<not> js_not (b ''message'')"
    and h: "handle fault (PostSubmitContact (b(''contact'' := None))) s = (Some r, s')"
  from h assms have "submit_contact fault (b(''contact'' := None)) s = (Some r, s')"
    by (simp add: handle_running)
  from submit_contact_status [OF this] ok show "status r \<noteq> 400" by simp
qed

theorem submit_contact_rejects_missing_fields_witness:
  "proc example_server = Running \<and> listening example_server
   \<and> no_name ''name'' = Some (JString [])
   \<and> handle None (PostSubmitContact no_name) example_server =
       (Some (Response 400 (Json [(''error'', JString ''Name, email, and message are required.'')])),
        example_server)
   \<and> \<not> js_not (asha ''name'') \<and> \<not> js_not (asha ''email'') \<and> \<not> js_not (asha ''message'')
   \<and> fst (handle None (PostSubmitContact (asha(''contact'' := None))) example_server) =
       Some (Response 200 (Json [(''message'', JString ''Contact data saved successfully!''),
                                 (''id'', JNum (Double 1))]))"
proof -
  have h1: "proc example_server = Running" and h2: "listening example_server"
    by (simp_all add: example_server_eq)
  have n: "no_name ''name'' = Some (JString [])"
    by (simp add: no_name_def)
  have v: "\<not> js_not (asha ''name'') \<and> \<not> js_not (asha ''email'') \<and> \<not> js_not (asha ''message'')"
    by (simp add: asha_def)
  have c1: "submit_contact None no_name example_server =
       (Some (Response 400 (Json [(''error'', JString ''Name, email, and message are required.'')])),
        example_server)"
    by (simp add: submit_contact_invalid no_name_def)
  have c2: "fst (submit_contact None (asha(''contact'' := None)) example_server) =
       Some (Response 200 (Json [(''message'', JString ''Contact data saved successfully!''),
                                 (''id'', JNum (Double 1))]))"
    by (simp add: submit_contact_def db_run_def insert_row_def
        new_rowid_def to_double_exact max_rowid_def Let_def example_server_eq asha_def)
  note t1 = submit_contact_rejects_missing_fields [OF h1 h2, of no_name None]
  note t2 = submit_contact_rejects_missing_fields [OF h1 h2, of asha None]
  from t1 n c1 have r1: "handle None (PostSubmitContact no_name) example_server =
       (Some (Response 400 (Json [(''error'', JString ''Name, email, and message are required.'')])),
        example_server)"
    by (simp add: handle_running [OF h1 h2])
  from t2 v c2 have r2: "fst (handle None (PostSubmitContact (asha(''contact'' := None))) example_server) =
       Some (Response 200 (Json [(''message'', JString ''Contact data saved successfully!''),
                                 (''id'', JNum (Double 1))]))"
    by (simp add: handle_running [OF h1 h2])
  from h1 h2 n v r1 r2 show ?thesis by blast
qed







text \<open>
  C4. When the three required fields of a \<^verbatim>\<open>POST /submit-contact\<close> request are filled
  and the callback of the INSERT statement receives an error, the response is 500 with
  the body \<^verbatim>\<open>{error: 'Failed to save contact data.'}\<close>, the error is written to the
  console, the store is as it was, and the process still runs and listens.
\<close>

theorem submit_contact_storage_error:
  assumes run: "proc s = Running" "listening s"
    and valid: "\<not> js_not (b ''name'')" "\<not> js_not (b ''email'')" "\<not> js_not (b ''message'')"
    and ins: "db_run fault (b ''name'', b ''email'', b ''contact'', b ''message'') s = (Some (Inl m), s')"
  shows "handle fault (PostSubmitContact b) s =
           (Some (Response 500 (Json [(''error'', JString ''Failed to save contact data.'')])),
            s\<lparr>console := console s @ [ConsoleError [Str ''Error inserting data into database:'', Str m]]\<rparr>)
       \<and> db (snd (handle fault (PostSubmitContact b) s)) = db s
       \<and> proc (snd (handle fault (PostSubmitContact b) s)) = Running
       \<and> listening (snd (handle fault (PostSubmitContact b) s))"
proof -
  from db_run_Inl [OF ins] have "s' = s" .
  with run valid ins show ?thesis
    by (simp add: handle_running submit_contact_valid)
qed

theorem submit_contact_storage_error_witness:
  "proc example_server = Running \<and> listening example_server
   \<and> \<not> js_not (asha ''name'') \<and> \<not> js_not (asha ''email'') \<and> \<not> js_not (asha ''message'')
   \<and> db_run (Some ''SQLITE_FULL: database or disk is full'')
        (asha ''name'', asha ''email'', asha ''contact'', asha ''message'') example_server
       = (Some (Inl ''SQLITE_FULL: database or disk is full''), example_server)
   \<and> fst (handle (Some ''SQLITE_FULL: database or disk is full'') (PostSubmitContact asha) example_server) =
       Some (Response 500 (Json [(''error'', JString ''Failed to save contact data.'')]))
   \<and> db (snd (handle (Some ''SQLITE_FULL: database or disk is full'') (PostSubmitContact asha) example_server))
       = \<lparr>table = Some [], seq = 0\<rparr>"
proof -
  have h1: "proc example_server = Running" and h2: "listening example_server"
    by (simp_all add: example_server_eq)
  have v1: "\<not> js_not (asha ''name'')" and v2: "\<not> js_not (asha ''email'')"
    and v3: "\<not> js_not (asha ''message'')"
    by (simp_all add: asha_def)
  have ins: "db_run (Some ''SQLITE_FULL: database or disk is full'')
        (asha ''name'', asha ''email'', asha ''contact'', asha ''message'') example_server
       = (Some (Inl ''SQLITE_FULL: database or disk is full''), example_server)"
    by (simp add: example_server_eq db_run_def insert_row_def)
  have d: "db example_server = \<lparr>table = Some [], seq = 0\<rparr>"
    by (simp add: example_server_eq)
  from submit_contact_storage_error [OF h1 h2 v1 v2 v3 ins] d
  have "fst (handle (Some ''SQLITE_FULL: database or disk is full'') (PostSubmitContact asha) example_server) =
       Some (Response 500 (Json [(''error'', JString ''Failed to save contact data.'')]))
     \<and> db (snd (handle (Some ''SQLITE_FULL: database or disk is full'') (PostSubmitContact asha) example_server))
       = \<lparr>table = Some [], seq = 0\<rparr>"
    by simp
  with h1 h2 v1 v2 v3 ins show ?thesis by blast
qed

text \<open>
  C5. The claim is that the service, when schema creation fails at start-up, never
  becomes ready, terminates with a non-zero exit code and never accepts a request against
  a missing table. It fails when the database file cannot be opened: the callback of
  \<^verbatim>\<open>new sqlite3.Database\<close> only writes the error to the console and \<^verbatim>\<open>app.listen\<close> does
  not depend on it, so the process runs and listens without the table and answers
  requests.
\<close>

theorem startup_failure_counterexample:
  "table (db unopened_server) = None
   \<and> proc unopened_server = Running
   \<and> listening unopened_server
   \<and> handle None GetRoot unopened_server =
       (Some (Response 200 (Text ''Server is running'')), unopened_server)
   \<and> handle None (PostSubmitContact no_name) unopened_server =
       (Some (Response 400 (Json [(''error'', JString ''Name, email, and message are required.'')])),
        unopened_server)"
  by (simp add: unopened_server_def boot_open_failed handle_def get_root_def submit_contact_def
      Let_def no_name_def empty_store_def)

text \<open>
  C5, as amended. If the database file cannot be opened, the error is written to the
  console and the process keeps running and listening: it answers \<^verbatim>\<open>GET /\<close> and
  \<^verbatim>\<open>POST /api/submit-loan\<close> with 200 and a \<^verbatim>\<open>POST /submit-contact\<close> with a required
  field missing with 400, it answers no \<^verbatim>\<open>POST /submit-contact\<close> with 200, and no
  sequence of requests changes the store. If the database opens and the CREATE TABLE
  statement fails, the process ends with exit code 1, the store is unchanged and no
  request is answered.
\<close>

theorem startup_failure_behaviour:
  "(open_err = Some m \<longrightarrow>
        proc (boot dbPath open_err schema_err st) = Running
      \<and> listening (boot dbPath open_err schema_err st)
      \<and> db (boot dbPath open_err schema_err st) = st
      \<and> console (boot dbPath open_err schema_err st) =
          [ConsoleLog [Str ''Server is running on http://localhost:5000''],
           ConsoleError [Str ''Error opening database:'', Str m]]
      \<and> fst (handle fault GetRoot (boot dbPath open_err schema_err st)) =
          Some (Response 200 (Text ''Server is running''))
      \<and> fst (handle fault (PostSubmitLoan b) (boot dbPath open_err schema_err st)) =
          Some (Response 200 (Json [(''message'', JString ''Loan application submitted successfully.'')]))
      \<and> (js_not (b ''name'') \<or> js_not (b ''email'') \<or> js_not (b ''message'') \<longrightarrow>
           fst (handle fault (PostSubmitContact b) (boot dbPath open_err schema_err st)) =
             Some (Response 400 (Json [(''error'', JString ''Name, email, and message are required.'')])))
      \<and> (\<forall>r. fst (handle fault (PostSubmitContact b) (boot dbPath open_err schema_err st)) = Some r
             \<longrightarrow> status r \<noteq> 200)
      \<and> db (snd (serve evs (boot dbPath open_err schema_err st))) = st)
   \<and> (open_err = None \<and> schema_err = Some m \<longrightarrow>
        proc (boot dbPath open_err schema_err st) = Exited 1
      \<and> db (boot dbPath open_err schema_err st) = st
      \<and> fst (handle fault rq (boot dbPath open_err schema_err st)) = None)"
proof (intro conjI impI)
  assume oe: "open_err = Some m"
  let ?s = "boot dbPath open_err schema_err st"
  have s: "?s = \<lparr>proc = Running, listening = True, db_open = False, db = st,
      console = [ConsoleLog [Str ''Server is running on http://localhost:5000''],
                 ConsoleError [Str ''Error opening database:'', Str m]]\<rparr>"
    by (simp add: oe boot_open_failed)
  have run: "proc ?s = Running" "listening ?s" and closed: "\<not> db_open ?s" and d: "db ?s = st"
    by (simp_all add: s)
  show "proc ?s = Running" by (rule run)
  show "listening ?s" by (rule run)
  show "db ?s = st" by (rule d)
  show "console ?s = [ConsoleLog [Str ''Server is running on http://localhost:5000''],
           ConsoleError [Str ''Error opening database:'', Str m]]"
    by (simp add: s)
  show "fst (handle fault GetRoot ?s) = Some (Response 200 (Text ''Server is running''))"
    by (simp add: handle_running [OF run] get_root_def)
  show "fst (handle fault (PostSubmitLoan b) ?s) =
          Some (Response 200 (Json [(''message'', JString ''Loan application submitted successfully.'')]))"
    by (simp add: handle_running [OF run] submit_loan_def)
  show "fst (handle fault (PostSubmitContact b) ?s) =
             Some (Response 400 (Json [(''error'', JString ''Name, email, and message are required.'')]))"
    if "js_not (b ''name'') \<or> js_not (b ''email'') \<or> js_not (b ''message'')"
    using that by (simp add: handle_running [OF run] submit_contact_invalid)
  show "\<forall>r. fst (handle fault (PostSubmitContact b) ?s) = Some r \<longrightarrow> status r \<noteq> 200"
  proof (intro allI impI)
    fix r assume a: "fst (handle fault (PostSubmitContact b) ?s) = Some r"
    obtain resp s' where h: "submit_contact fault b ?s = (resp, s')"
      by (cases "submit_contact fault b ?s")
    from a h have "resp = Some r" by (simp add: handle_running [OF run])
    with submit_contact_closed [OF closed h] show "status r \<noteq> 200" by simp
  qed
  show "db (snd (serve evs ?s)) = st"
    using serve_closed [OF closed, of evs] d by simp
next
  assume "open_err = None \<and> schema_err = Some m"
  then show "proc (boot dbPath open_err schema_err st) = Exited 1"
    and "db (boot dbPath open_err schema_err st) = st"
    and "fst (handle fault rq (boot dbPath open_err schema_err st)) = None"
    by (simp_all add: boot_schema_failed handle_def)
qed

theorem startup_failure_behaviour_witness:
  "proc unopened_server = Running \<and> listening unopened_server
   \<and> db unopened_server = empty_store
   \<and> fst (handle None GetRoot unopened_server) = Some (Response 200 (Text ''Server is running''))
   \<and> js_not (no_name ''name'')
   \<and> fst (handle None (PostSubmitContact no_name) unopened_server) =
        Some (Response 400 (Json [(''error'', JString ''Name, email, and message are required.'')]))
   \<and> fst (handle None (PostSubmitContact asha) unopened_server) = None
   \<and> db (snd (serve example_requests unopened_server)) = empty_store
   \<and> proc (boot ''/srv/contactData.db'' None (Some ''SQLITE_NOTADB: file is not a database'') empty_store)
        = Exited 1"
proof -
  have n: "js_not (no_name ''name'')" by (simp add: no_name_def)
  have a: "fst (handle None (PostSubmitContact asha) unopened_server) = None"
    by (simp add: unopened_server_def boot_open_failed handle_def submit_contact_def db_run_def
        Let_def asha_def)
  note t1 = startup_failure_behaviour [of "Some ''SQLITE_CANTOPEN: unable to open database file''"
      "''SQLITE_CANTOPEN: unable to open database file''" "''/srv/contactData.db''" None empty_store
      None no_name example_requests GetRoot, folded unopened_server_def]
  note t2 = startup_failure_behaviour [of None "''SQLITE_NOTADB: file is not a database''"
      "''/srv/contactData.db''" "Some ''SQLITE_NOTADB: file is not a database''" empty_store
      None no_name example_requests GetRoot]
  from t1 t2 n a show ?thesis by simp
qed

text \<open>
  C6. In every reachable state of the server (after a first start on a file without the
  table, after any restart and after any request), every row of \<^verbatim>\<open>contact_data\<close> has a
  name, an email and a message that are filled: none of them is NULL, none is the empty
  string.
\<close>

theorem stored_rows_nonempty:
  assumes "reachable s" and "table (db s) = Some rows" and "r \<in> set rows"
  shows "filled (name_col r) \<and> filled (email_col r) \<and> filled (message_col r)
       \<and> name_col r \<noteq> None \<and> name_col r \<noteq> Some (JString [])
       \<and> email_col r \<noteq> None \<and> email_col r \<noteq> Some (JString [])
       \<and> message_col r \<noteq> None \<and> message_col r \<noteq> Some (JString [])"
proof -
  from reachable_store_ok [OF assms(1)] assms(2) have "list_all row_ok rows"
    by (simp add: store_ok_def)
  with assms(3) have "row_ok r" by (simp add: list_all_iff)
  then show ?thesis by (simp add: row_ok_def filled_nonempty)
qed

theorem stored_rows_nonempty_witness:
  "reachable (snd (handle None (PostSubmitContact asha) example_server))
   \<and> table (db (snd (handle None (PostSubmitContact asha) example_server))) =
       Some [\<lparr>id_col = 1, name_col = Some (JString ''Asha''),
              email_col = Some (JString ''asha@example.com''), contact_col = None,
              message_col = Some (JString ''Interested in a loan'')\<rparr>]
   \<and> filled (Some (JString ''Asha'')) \<and> filled (Some (JString ''asha@example.com''))
   \<and> filled (Some (JString ''Interested in a loan''))"
proof -
  let ?s = "snd (handle None (PostSubmitContact asha) example_server)"
  let ?r = "\<lparr>id_col = 1, name_col = Some (JString ''Asha''),
              email_col = Some (JString ''asha@example.com''), contact_col = None,
              message_col = Some (JString ''Interested in a loan'')\<rparr>"
  have "reachable example_server"
    unfolding example_server_def by (rule reachable.start)
  then have r: "reachable ?s" by (rule reachable.request)
  have t: "table (db ?s) = Some [?r]"
    by (simp add: example_server_eq handle_def submit_contact_def db_run_def insert_row_def
        new_rowid_def to_double_exact max_rowid_def Let_def asha_def)
  have m: "?r \<in> set [?r]" by simp
  from stored_rows_nonempty [OF r t m]
  have "filled (Some (JString ''Asha'')) \<and> filled (Some (JString ''asha@example.com''))
   \<and> filled (Some (JString ''Interested in a loan''))" by simp
  with r t show ?thesis by blast
qed

text \<open>
  C7. For every store, \<open>ensureSchema\<close> without a driver error reports no error, and a
  second call right after it reports no error and leaves the store as the first call left
  it: there is one table, holding the rows it held before the first call (none if the
  table did not exist), and the sequence entry is untouched. Starting the server twice on
  the same file leaves the file as starting it once does.
\<close>

theorem ensureSchema_idempotent:
  "fst (ensureSchema None st) = None
   \<and> ensureSchema None (snd (ensureSchema None st)) = (None, snd (ensureSchema None st))
   \<and> table (snd (ensureSchema None st)) = Some (case table st of None \<Rightarrow> [] | Some rows \<Rightarrow> rows)
   \<and> seq (snd (ensureSchema None st)) = seq st
   \<and> db (boot dbPath None None (db (boot dbPath None None st))) = db (boot dbPath None None st)"
  by (simp add: ensureSchema_def boot_def split: option.splits)

text \<open>
  C8. While the process runs and listens, \<^verbatim>\<open>POST /api/submit-loan\<close> answers every body,
  the empty one included, with 200 and the body
  \<^verbatim>\<open>{message: 'Loan application submitted successfully.'}\<close>; the response does not depend
  on the request body, and the only change to the server is one more console line: the
  store is unchanged.
\<close>

theorem submit_loan_acknowledges:
  assumes "proc s = Running" and "listening s"
  shows "handle fault (PostSubmitLoan b) s =
           (Some (Response 200 (Json [(''message'', JString ''Loan application submitted successfully.'')])),
            s\<lparr>console := console s @ [ConsoleLog [Str ''Loan application received:'', Obj b]]\<rparr>)
       \<and> db (snd (handle fault (PostSubmitLoan b) s)) = db s"
  using assms by (simp add: handle_running submit_loan_def)

theorem submit_loan_acknowledges_witness:
  "proc example_server = Running \<and> listening example_server
   \<and> fst (handle None (PostSubmitLoan Map.empty) example_server) =
       Some (Response 200 (Json [(''message'', JString ''Loan application submitted successfully.'')]))
   \<and> db (snd (handle None (PostSubmitLoan Map.empty) example_server)) = \<lparr>table = Some [], seq = 0\<rparr>
   \<and> console (snd (handle None (PostSubmitLoan Map.empty) example_server)) =
       [ConsoleLog [Str ''Server is running on http://localhost:5000''],
        ConsoleLog [Str ''Connected to the SQLite database at'', Str ''/srv/contactData.db''],
        ConsoleLog [Str ''Loan application received:'', Obj Map.empty]]"
proof -
  have h1: "proc example_server = Running" and h2: "listening example_server"
    by (simp_all add: example_server_eq)
  have d: "db example_server = \<lparr>table = Some [], seq = 0\<rparr>"
    and c: "console example_server =
       [ConsoleLog [Str ''Server is running on http://localhost:5000''],
        ConsoleLog [Str ''Connected to the SQLite database at'', Str ''/srv/contactData.db'']]"
    by (simp_all add: example_server_eq)
  from submit_loan_acknowledges [OF h1 h2, of None Map.empty] d c h1 h2
  show ?thesis by simp
qed

text \<open>
  C9. While the process runs and listens, \<^verbatim>\<open>GET /\<close> is answered with status 200 and the
  text \<^verbatim>\<open>Server is running\<close>, whatever the state of the store and of the database
  handle, and the server is left as it was.
\<close>

theorem get_root_fixed:
  assumes "proc s = Running" and "listening s"
  shows "handle fault GetRoot s = (Some (Response 200 (Text ''Server is running'')), s)"
  using assms by (simp add: handle_running get_root_def)

theorem get_root_fixed_witness:
  "proc example_server = Running \<and> listening example_server
   \<and> handle None GetRoot example_server = (Some (Response 200 (Text ''Server is running'')), example_server)
   \<and> proc (boot ''/srv/contactData.db'' (Some ''SQLITE_CANTOPEN: unable to open database file'') None empty_store) = Running
   \<and> listening (boot ''/srv/contactData.db'' (Some ''SQLITE_CANTOPEN: unable to open database file'') None empty_store)
   \<and> fst (handle None GetRoot
        (boot ''/srv/contactData.db'' (Some ''SQLITE_CANTOPEN: unable to open database file'') None empty_store))
       = Some (Response 200 (Text ''Server is running''))"
proof -
  let ?t = "boot ''/srv/contactData.db'' (Some ''SQLITE_CANTOPEN: unable to open database file'') None empty_store"
  have h1: "proc example_server = Running" and h2: "listening example_server"
    by (simp_all add: example_server_eq)
  have k1: "proc ?t = Running" and k2: "listening ?t"
    by (simp_all add: boot_def)
  from get_root_fixed [OF h1 h2, of None] get_root_fixed [OF k1 k2, of None] h1 h2 k1 k2
  show ?thesis by simp
qed

text \<open>
  C10. While the process runs and listens, a \<^verbatim>\<open>POST /submit-contact\<close> request with a
  required field missing, empty or otherwise falsy gets exactly the response 400 with
  the body \<^verbatim>\<open>{error: 'Name, email, and message are required.'}\<close>, whichever field it
  is; and every response of that route with status 400 has that body.
\<close>

theorem validation_error_body_fixed:
  assumes "proc s = Running" and "listening s"
  shows "(js_not (b ''name'') \<or> js_not (b ''email'') \<or> js_not (b ''message'') \<longrightarrow>
            handle fault (PostSubmitContact b) s =
              (Some (Response 400 (Json [(''error'', JString ''Name, email, and message are required.'')])), s))
       \<and> (\<forall>r s'. handle fault (PostSubmitContact b) s = (Some r, s') \<and> status r = 400 \<longrightarrow>
            payload r = Json [(''error'', JString ''Name, email, and message are required.'')])"
proof (intro conjI impI allI)
  assume "js_not (b ''name'') \<or> js_not (b ''email'') \<or> js_not (b ''message'')"
  then show "handle fault (PostSubmitContact b) s =
      (Some (Response 400 (Json [(''error'', JString ''Name, email, and message are required.'')])), s)"
    using assms by (simp add: handle_running submit_contact_invalid)
next
  fix r s'
  assume h: "handle fault (PostSubmitContact b) s = (Some r, s') \<and> status r = 400"
  with assms have sc: "submit_contact fault b s = (Some r, s')"
    by (simp add: handle_running)
  from submit_contact_status [OF sc] h
  have "js_not (b ''name'') \<or> js_not (b ''email'') \<or> js_not (b ''message'')" by simp
  with sc show "payload r = Json [(''error'', JString ''Name, email, and message are required.'')]"
    by (auto simp: submit_contact_invalid)
qed

theorem validation_error_body_fixed_witness:
  "proc example_server = Running \<and> listening example_server
   \<and> js_not (no_name ''name'')
   \<and> handle None (PostSubmitContact no_name) example_server =
       (Some (Response 400 (Json [(''error'', JString ''Name, email, and message are required.'')])),
        example_server)
   \<and> js_not (Map.empty ''message'')
   \<and> handle None (PostSubmitContact Map.empty) example_server =
       (Some (Response 400 (Json [(''error'', JString ''Name, email, and message are required.'')])),
        example_server)"
proof -
  have h1: "proc example_server = Running" and h2: "listening example_server"
    by (simp_all add: example_server_eq)
  have n: "js_not (no_name ''name'')"
    by (simp add: no_name_def)
  have e: "js_not (Map.empty ''message'')"
    by simp
  from validation_error_body_fixed [OF h1 h2, of no_name None] n
  have r1: "handle None (PostSubmitContact no_name) example_server =
       (Some (Response 400 (Json [(''error'', JString ''Name, email, and message are required.'')])),
        example_server)"
    by blast
  from validation_error_body_fixed [OF h1 h2, of Map.empty None] e
  have r2: "handle None (PostSubmitContact Map.empty) example_server =
       (Some (Response 400 (Json [(''error'', JString ''Name, email, and message are required.'')])),
        example_server)"
    by blast
  from h1 h2 n e r1 r2 show ?thesis by blast
qed

end
